theory Spec2Isabelle
  imports Main "HOL-Library.Word"
begin

section \<open>Values exchanged with the middleware and the storage SDK\<close>

text \<open>
  The adapter of \<^verbatim>\<open>src/index.ts\<close> sits between the multipart middleware and the
  object-storage SDK. Both are external: what they hand to the adapter (requests, file
  streams, random bytes, progress events, the outcome of an upload or of a delete) is a
  parameter of the model, and what the adapter hands to them (SDK clients constructed,
  upload and delete requests, callback invocations) is returned as data.
\<close>

datatype js_error = JsError string

datatype js_value = JsUndefined | JsString string

datatype Request = Request nat

datatype Readable = Readable "8 word list"

text \<open>\<^verbatim>\<open>Express.Multer.File\<close>, and the \<^verbatim>\<open>File\<close> interface that extends it.\<close>

record MulterFile =
  fieldname :: string
  originalname :: string
  encoding :: string
  mimetype :: string
  size :: nat
  stream :: Readable

record File = MulterFile +
  bucket :: string
  key :: string
  location :: string
  etag :: string

record StorageParams =
  fileFilter :: "(Request \<Rightarrow> MulterFile \<Rightarrow> js_error + bool) option"
  key :: "(Request \<Rightarrow> MulterFile \<Rightarrow> string) option"
  fieldName :: "string option"
  maxCount :: "nat option"
  bucket :: string
  endpoint :: string
  apiKeyId :: string
  serviceInstanceId :: string
  signatureVersion :: "string option"

record StorageParamError =
  param :: string
  message :: string

text \<open>
  A JavaScript \<^verbatim>\<open>throw\<close> can throw any value: \<^verbatim>\<open>validateStorageParams\<close> throws
  the array of errors itself, the runtime throws \<^verbatim>\<open>Error\<close> instances.
\<close>

datatype js_thrown = ThrowArray "StorageParamError list" | ThrowError js_error

text \<open>The options object given to \<^verbatim>\<open>new ibm.S3\<close>; a client is identified with it.\<close>

record S3 =
  endpoint :: string
  apiKeyId :: string
  serviceInstanceId :: string
  signatureVersion :: "string option"

text \<open>
  \<^verbatim>\<open>new ibm.S3(options)\<close> is the SDK's code: it returns a client or throws an
  \<^verbatim>\<open>Error\<close>, for instance for an endpoint it cannot parse. What it does with given
  options is a parameter: \<open>None\<close> when the client is constructed, \<open>Some e\<close> when
  \<open>e\<close> is thrown.
\<close>

type_synonym S3_constructor = "S3 \<Rightarrow> js_error option"

section \<open>Truthiness of the values the code tests\<close>

text \<open>\<^verbatim>\<open>!s\<close> on a string holds exactly for the empty string.\<close>

definition not_string :: "string \<Rightarrow> bool" where
  "not_string s = (s = [])"

text \<open>\<^verbatim>\<open>a || d\<close> for an optional string \<^verbatim>\<open>a\<close>: \<^verbatim>\<open>undefined\<close> and \<^verbatim>\<open>""\<close> are falsy.\<close>

definition or_string :: "string option \<Rightarrow> string \<Rightarrow> string" where
  "or_string a d = (case a of None \<Rightarrow> d | Some s \<Rightarrow> if not_string s then d else s)"

section \<open>Parameter validation\<close>

definition validateStorageParams :: "StorageParams \<Rightarrow> js_thrown + unit" where
  "validateStorageParams params =
     (let errors0 = [];
          errors1 = (if not_string (StorageParams.endpoint params)
                     then errors0 @ [\<lparr>param = ''endpoint'',
                            message = ''Failed to upload file: endpoint cannot be empty.''\<rparr>]
                     else errors0);
          errors2 = (if not_string (StorageParams.bucket params)
                     then errors1 @ [\<lparr>param = ''bucket'',
                            message = ''Failed to upload file: bucket name cannot be empty.''\<rparr>]
                     else errors1);
          errors3 = (if not_string (StorageParams.apiKeyId params)
                     then errors2 @ [\<lparr>param = ''apiKeyId'',
                            message = ''Failed to upload file: Failed to upload file: API KEY ID cannot be empty.''\<rparr>]
                     else errors2);
          errors4 = (if not_string (StorageParams.serviceInstanceId params)
                     then errors3 @ [\<lparr>param = ''serviceInstanceId'',
                            message = ''Failed to upload file: Service Instance Id cannot be empty.''\<rparr>]
                     else errors3)
      in if length errors4 > 0 then Inl (ThrowArray errors4) else Inr ())"

section \<open>The storage engine\<close>

text \<open>
  \<^verbatim>\<open>getObjectKey\<close> holds either the function the user supplied as \<^verbatim>\<open>opts.key\<close>
  (declared \<^verbatim>\<open>key?(req, file): string\<close>, so a function from the request and the file
  to a string) or the module's own \<^verbatim>\<open>getFilename\<close>.
\<close>

datatype key_fn = UserKey "Request \<Rightarrow> MulterFile \<Rightarrow> string" | GetFilename

record CosStorage =
  cos :: S3
  bucket :: string
  getObjectKey :: key_fn

text \<open>The options literal the constructor passes to \<^verbatim>\<open>new ibm.S3\<close>.\<close>

definition client_options :: "StorageParams \<Rightarrow> S3" where
  "client_options opts =
     \<lparr>S3.endpoint = StorageParams.endpoint opts,
      S3.apiKeyId = StorageParams.apiKeyId opts,
      S3.serviceInstanceId = StorageParams.serviceInstanceId opts,
      S3.signatureVersion = StorageParams.signatureVersion opts\<rparr>"

text \<open>
  The constructor. The second component lists the SDK clients constructed by the call,
  in order. A throw leaves the constructor at once, whether it comes from
  \<^verbatim>\<open>validateStorageParams\<close> or from \<^verbatim>\<open>new ibm.S3\<close>: nothing in the module
  catches either.
\<close>

definition CosStorage_constructor ::
  "S3_constructor \<Rightarrow> StorageParams \<Rightarrow> (js_thrown + CosStorage) \<times> S3 list" where
  "CosStorage_constructor new_S3 opts =
     (case validateStorageParams opts of
        Inl thrown \<Rightarrow> (Inl thrown, [])
      | Inr _ \<Rightarrow>
          (case new_S3 (client_options opts) of
             Some e \<Rightarrow> (Inl (ThrowError e), [])
           | None \<Rightarrow>
               (Inr \<lparr>cos = client_options opts,
                     CosStorage.bucket = StorageParams.bucket opts,
                     getObjectKey = (case StorageParams.key opts of
                                       Some f \<Rightarrow> UserKey f
                                     | None \<Rightarrow> GetFilename)\<rparr>,
                [client_options opts])))"

text \<open>The default export: \<^verbatim>\<open>(opts) => new CosStorage(opts)\<close>.\<close>

definition default_export ::
  "S3_constructor \<Rightarrow> StorageParams \<Rightarrow> (js_thrown + CosStorage) \<times> S3 list" where
  "default_export new_S3 opts = CosStorage_constructor new_S3 opts"

section \<open>The two middleware helpers\<close>

text \<open>
  \<^verbatim>\<open>multer({fileFilter, storage}).single(name)\<close> and \<^verbatim>\<open>.array(name, maxCount)\<close>:
  the middleware is recorded by what it was configured with.
\<close>

datatype FieldSpec = Single string | Array string "nat option"

record Multer =
  fileFilter :: "(Request \<Rightarrow> MulterFile \<Rightarrow> js_error + bool) option"
  storage :: CosStorage
  field :: FieldSpec

text \<open>The options literal both helpers pass to \<^verbatim>\<open>new CosStorage\<close>.\<close>

definition helper_opts :: "StorageParams \<Rightarrow> StorageParams" where
  "helper_opts params =
     \<lparr>StorageParams.fileFilter = None,
      StorageParams.key = StorageParams.key params,
      fieldName = None,
      maxCount = None,
      StorageParams.bucket = StorageParams.bucket params,
      StorageParams.endpoint = StorageParams.endpoint params,
      StorageParams.apiKeyId = StorageParams.apiKeyId params,
      StorageParams.serviceInstanceId = StorageParams.serviceInstanceId params,
      StorageParams.signatureVersion =
        Some (or_string (StorageParams.signatureVersion params) ''iam'')\<rparr>"

definition cosMultipleUpload ::
  "S3_constructor \<Rightarrow> StorageParams \<Rightarrow> (js_thrown + Multer) \<times> S3 list" where
  "cosMultipleUpload new_S3 params =
     (case validateStorageParams params of
        Inl thrown \<Rightarrow> (Inl thrown, [])
      | Inr _ \<Rightarrow>
          (case CosStorage_constructor new_S3 (helper_opts params) of
             (Inl thrown, clients) \<Rightarrow> (Inl thrown, clients)
           | (Inr engine, clients) \<Rightarrow>
               (Inr \<lparr>Multer.fileFilter = StorageParams.fileFilter params,
                     storage = engine,
                     field = Array (or_string (fieldName params) ''files'') (maxCount params)\<rparr>,
                clients)))"

definition cosSingleUpload ::
  "S3_constructor \<Rightarrow> StorageParams \<Rightarrow> (js_thrown + Multer) \<times> S3 list" where
  "cosSingleUpload new_S3 params =
     (case validateStorageParams params of
        Inl thrown \<Rightarrow> (Inl thrown, [])
      | Inr _ \<Rightarrow>
          (case CosStorage_constructor new_S3 (helper_opts params) of
             (Inl thrown, clients) \<Rightarrow> (Inl thrown, clients)
           | (Inr engine, clients) \<Rightarrow>
               (Inr \<lparr>Multer.fileFilter = StorageParams.fileFilter params,
                     storage = engine,
                     field = Single (or_string (fieldName params) ''file'')\<rparr>,
                clients)))"

section \<open>The default key generator\<close>

text \<open>\<^verbatim>\<open>buf.toString("hex")\<close>: two lower-case hexadecimal digits for each byte.\<close>

definition hex_digit :: "nat \<Rightarrow> char" where
  "hex_digit n = ''0123456789abcdef'' ! n"

definition hex_byte :: "8 word \<Rightarrow> string" where
  "hex_byte b = [hex_digit (unat b div 16), hex_digit (unat b mod 16)]"

definition toString_hex :: "8 word list \<Rightarrow> string" where
  "toString_hex buf = concat (map hex_byte buf)"

text \<open>
  \<^verbatim>\<open>crypto.randomBytes(n, cb)\<close> hands its callback an error or \<open>n\<close> bytes of the
  system's entropy, which is a parameter here.
\<close>

definition randomBytes :: "nat \<Rightarrow> js_error + 8 word list \<Rightarrow> js_error + 8 word list" where
  "randomBytes n entropy = (case entropy of Inl err \<Rightarrow> Inl err | Inr bytes \<Rightarrow> Inr (take n bytes))"

definition not_a_function :: js_thrown where
  "not_a_function = ThrowError (JsError ''TypeError: cb is not a function'')"

text \<open>
  \<^verbatim>\<open>getFilename (req, file, cb)\<close> has a block body without \<^verbatim>\<open>return\<close>: the call
  itself evaluates to \<^verbatim>\<open>undefined\<close> (first component). The filename goes to \<^verbatim>\<open>cb\<close>,
  later, from the callback of \<^verbatim>\<open>crypto.randomBytes\<close> (second component: what \<^verbatim>\<open>cb\<close>
  returned, or the exception of calling a \<^verbatim>\<open>cb\<close> that was not passed).
\<close>

definition getFilename ::
  "Request \<Rightarrow> MulterFile \<Rightarrow> (js_error option \<Rightarrow> string option \<Rightarrow> 'r) option \<Rightarrow>
   js_error + 8 word list \<Rightarrow> js_value \<times> (js_thrown + 'r)" where
  "getFilename req file cb entropy =
     (JsUndefined,
      case randomBytes 16 entropy of
        Inr buf \<Rightarrow> (case cb of
                     Some f \<Rightarrow> Inr (f None (Some (toString_hex buf)))
                   | None \<Rightarrow> Inl not_a_function)
      | Inl err \<Rightarrow> (case cb of
                     Some f \<Rightarrow> Inr (f (Some err) None)
                   | None \<Rightarrow> Inl not_a_function))"

section \<open>Handling and removing a file\<close>

record UploadParams =
  Bucket :: string
  Key :: js_value
  Body :: Readable

text \<open>What the promise of a managed upload resolves with.\<close>

record SendData =
  ETag :: string
  Location :: string
  Key :: string
  Bucket :: string

text \<open>A progress event counts bytes; \<^verbatim>\<open>total\<close> may be absent.\<close>

record ProgressEvent =
  loaded :: nat
  total :: "nat option"

text \<open>
  What the SDK does with one upload: the \<^verbatim>\<open>httpUploadProgress\<close> events it emits, in
  order, and then how the promise settles (\<open>Inl\<close> rejected, \<open>Inr\<close> resolved).
\<close>

record UploadRun =
  progress :: "ProgressEvent list"
  settled :: "js_error + SendData"

text \<open>The object literal passed as \<^verbatim>\<open>objectInfo\<close> (a \<^verbatim>\<open>Partial<File>\<close>).\<close>

record ObjectInfo =
  etag :: string
  location :: string
  key :: string
  bucket :: string
  size :: nat

text \<open>One invocation of the callback of \<^verbatim>\<open>_handleFile\<close>: \<^verbatim>\<open>callback(error, objectInfo)\<close>.\<close>

datatype handle_callback = HandleCallback "js_error option" "ObjectInfo option"

record HandleOutcome =
  this_after :: CosStorage
  uploads :: "UploadParams list"
  callbacks :: "handle_callback list"
  uncaught :: "js_thrown list"

text \<open>\<^verbatim>\<open>this.getObjectKey(req, file)\<close>: two arguments, so \<^verbatim>\<open>getFilename\<close> gets no \<^verbatim>\<open>cb\<close>.\<close>

definition call_getObjectKey ::
  "key_fn \<Rightarrow> Request \<Rightarrow> MulterFile \<Rightarrow> js_error + 8 word list \<Rightarrow> js_value \<times> js_thrown list" where
  "call_getObjectKey g req file entropy =
     (case g of
        UserKey f \<Rightarrow> (JsString (f req file), [])
      | GetFilename \<Rightarrow>
          (case getFilename req file (None :: (js_error option \<Rightarrow> string option \<Rightarrow> unit) option) entropy of
             (v, Inl thrown) \<Rightarrow> (v, [thrown])
           | (v, Inr _) \<Rightarrow> (v, [])))"

text \<open>The listener: \<^verbatim>\<open>if (event.total) fileSize = event.total\<close>.\<close>

definition on_httpUploadProgress :: "nat \<Rightarrow> ProgressEvent \<Rightarrow> nat" where
  "on_httpUploadProgress fileSize event =
     (case total event of
        Some t \<Rightarrow> if t \<noteq> 0 then t else fileSize
      | None \<Rightarrow> fileSize)"

text \<open>
  The completion callback is the middleware's: what an invocation of it does is a
  parameter, \<open>None\<close> when it returns and \<open>Some e\<close> when it throws \<open>e\<close>.
\<close>

type_synonym completion = "handle_callback \<Rightarrow> js_error option"

text \<open>
  The second handler of the chain, \<^verbatim>\<open>(err) => callback(err)\<close>: the invocation it makes
  and what leaves it uncaught. Nothing follows \<^verbatim>\<open>.catch\<close>, so an exception of this
  invocation is an unhandled rejection.
\<close>

definition catch_handler :: "completion \<Rightarrow> js_error \<Rightarrow> handle_callback list \<times> js_thrown list" where
  "catch_handler callback err =
     (let call = HandleCallback (Some err) None
      in ([call], case callback call of None \<Rightarrow> [] | Some e \<Rightarrow> [ThrowError e]))"

text \<open>
  The first handler, \<^verbatim>\<open>(res) => callback(null, {...})\<close>, followed by \<^verbatim>\<open>.catch\<close>:
  an exception of the invocation rejects the promise that \<^verbatim>\<open>.then\<close> returned, and
  the second handler receives it.
\<close>

definition then_handler ::
  "completion \<Rightarrow> nat \<Rightarrow> SendData \<Rightarrow> handle_callback list \<times> js_thrown list" where
  "then_handler callback fileSize res =
     (let call = HandleCallback None
                   (Some \<lparr>etag = ETag res,
                          location = Location res,
                          key = SendData.Key res,
                          bucket = SendData.Bucket res,
                          size = fileSize\<rparr>)
      in case callback call of
           None \<Rightarrow> ([call], [])
         | Some e \<Rightarrow> (let (calls, thrown) = catch_handler callback e in (call # calls, thrown)))"

text \<open>
  \<^verbatim>\<open>_handleFile\<close>. No statement assigns to a field of \<^verbatim>\<open>this\<close>, so the engine is
  returned as it came. The upload request is issued during the call. The rest happens
  later, from the event loop: the callback of \<^verbatim>\<open>crypto.randomBytes\<close> runs as soon as the
  bytes are there, ahead of an upload that has yet to read the file's stream and reach
  the store; an exception it raises is caught by nobody and ends the process, so that
  the promise chain never runs. Otherwise the chain
  \<^verbatim>\<open>upload.promise().then(...).catch(...)\<close> runs its first handler when the promise
  resolves and its second when it rejects.
\<close>

definition handleFile ::
  "CosStorage \<Rightarrow> Request \<Rightarrow> MulterFile \<Rightarrow> completion \<Rightarrow> js_error + 8 word list \<Rightarrow>
   UploadRun \<Rightarrow> HandleOutcome" where
  "handleFile this req file callback entropy run =
     (let (key, thrown) = call_getObjectKey (getObjectKey this) req file entropy;
          fileSize0 = 0;
          params = \<lparr>UploadParams.Bucket = CosStorage.bucket this,
                    UploadParams.Key = key,
                    Body = stream file\<rparr>;
          fileSize = foldl on_httpUploadProgress fileSize0 (progress run);
          (calls, rejected) =
            (if thrown \<noteq> [] then ([], [])
             else case settled run of
                    Inr res \<Rightarrow> then_handler callback fileSize res
                  | Inl err \<Rightarrow> catch_handler callback err)
      in \<lparr>this_after = this,
          uploads = [params],
          callbacks = calls,
          uncaught = thrown @ rejected\<rparr>)"

record DeleteParams =
  Bucket :: string
  Key :: string

record RemoveOutcome =
  this_after :: CosStorage
  deletes :: "DeleteParams list"
  callbacks :: "js_error option list"

text \<open>
  \<^verbatim>\<open>_removeFile\<close>. \<open>err\<close> is what the SDK hands to the callback of \<^verbatim>\<open>deleteObject\<close>
  (\<open>None\<close> for \<^verbatim>\<open>null\<close>). The body of that callback is an \<^verbatim>\<open>if\<close> without
  \<^verbatim>\<open>else\<close> or \<^verbatim>\<open>return\<close>, followed by \<^verbatim>\<open>callback(err)\<close>.
\<close>

definition removeFile :: "CosStorage \<Rightarrow> Request \<Rightarrow> File \<Rightarrow> js_error option \<Rightarrow> RemoveOutcome" where
  "removeFile this req file err =
     (let params = \<lparr>DeleteParams.Bucket = File.bucket file, DeleteParams.Key = File.key file\<rparr>
      in \<lparr>RemoveOutcome.this_after = this,
          deletes = [params],
          RemoveOutcome.callbacks = (if err = None then [None] else []) @ [err]\<rparr>)"

section \<open>Sequences of calls on one engine\<close>

datatype engine_call =
    HandleFile Request MulterFile completion "js_error + 8 word list" UploadRun
  | RemoveFile Request File "js_error option"

datatype sdk_request = UploadRequest UploadParams | DeleteRequest DeleteParams

fun run_calls :: "CosStorage \<Rightarrow> engine_call list \<Rightarrow> CosStorage \<times> sdk_request list" where
  "run_calls this [] = (this, [])"
| "run_calls this (HandleFile req file callback entropy run # calls) =
     (let out = handleFile this req file callback entropy run;
          (this', reqs) = run_calls (HandleOutcome.this_after out) calls
      in (this', map UploadRequest (uploads out) @ reqs))"
| "run_calls this (RemoveFile req file err # calls) =
     (let out = removeFile this req file err;
          (this', reqs) = run_calls (RemoveOutcome.this_after out) calls
      in (this', map DeleteRequest (deletes out) @ reqs))"

section \<open>The specification's vocabulary\<close>

text \<open>The four required parameters, in the order the specification lists them.\<close>

definition required_params :: "(string \<times> (StorageParams \<Rightarrow> string)) list" where
  "required_params =
     [(''endpoint'', StorageParams.endpoint),
      (''bucket'', StorageParams.bucket),
      (''apiKeyId'', StorageParams.apiKeyId),
      (''serviceInstanceId'', StorageParams.serviceInstanceId)]"

definition some_required_empty :: "StorageParams \<Rightarrow> bool" where
  "some_required_empty p =
     (StorageParams.endpoint p = [] \<or> StorageParams.bucket p = [] \<or>
      StorageParams.apiKeyId p = [] \<or> StorageParams.serviceInstanceId p = [])"

text \<open>The names of the required parameters that are empty, in that order.\<close>

definition empty_required :: "StorageParams \<Rightarrow> string list" where
  "empty_required p = map fst (filter (\<lambda>(n, get). get p = []) required_params)"

text \<open>
  The size the specification promises: the \<^verbatim>\<open>total\<close> of the last progress event that
  carried a truthy one, and 0 when there is none.
\<close>

definition truthy_total :: "ProgressEvent \<Rightarrow> bool" where
  "truthy_total e = (case total e of Some t \<Rightarrow> t \<noteq> 0 | None \<Rightarrow> False)"

definition last_truthy_total :: "ProgressEvent list \<Rightarrow> nat" where
  "last_truthy_total events =
     (case filter truthy_total (rev events) of
        [] \<Rightarrow> 0
      | e # _ \<Rightarrow> (case total e of Some t \<Rightarrow> t | None \<Rightarrow> 0))"

section \<open>Sample inputs\<close>

definition sample_params :: StorageParams where
  "sample_params =
     \<lparr>StorageParams.fileFilter = None,
      StorageParams.key = None,
      fieldName = None,
      maxCount = None,
      StorageParams.bucket = ''uploads'',
      StorageParams.endpoint = ''s3.example.test'',
      StorageParams.apiKeyId = ''id'',
      StorageParams.serviceInstanceId = ''crn'',
      StorageParams.signatureVersion = None\<rparr>"

text \<open>
  A sample of the SDK's constructor: it refuses the endpoint \<^verbatim>\<open>https://xn--\<close>, whose
  host name the SDK's URL parsing rejects, and accepts every other one.
\<close>

definition sample_new_S3 :: S3_constructor where
  "sample_new_S3 options =
     (if S3.endpoint options = ''https://xn--''
      then Some (JsError ''TypeError: Invalid URL'')
      else None)"

text \<open>Two sample callbacks: one returns, the other throws when it is handed a success.\<close>

definition returning_callback :: completion where
  "returning_callback call = None"

definition throwing_callback :: completion where
  "throwing_callback call =
     (case call of
        HandleCallback None info \<Rightarrow> Some (JsError ''boom'')
      | HandleCallback (Some e) info \<Rightarrow> None)"

definition sample_key :: "Request \<Rightarrow> MulterFile \<Rightarrow> string" where
  "sample_key req file = originalname file"

definition sample_engine :: CosStorage where
  "sample_engine =
     \<lparr>cos = \<lparr>S3.endpoint = ''s3.example.test'', S3.apiKeyId = ''id'',
              S3.serviceInstanceId = ''crn'', S3.signatureVersion = None\<rparr>,
      CosStorage.bucket = ''uploads'',
      getObjectKey = GetFilename\<rparr>"

definition sample_keyed_engine :: CosStorage where
  "sample_keyed_engine =
     \<lparr>cos = \<lparr>S3.endpoint = ''s3.example.test'', S3.apiKeyId = ''id'',
              S3.serviceInstanceId = ''crn'', S3.signatureVersion = None\<rparr>,
      CosStorage.bucket = ''uploads'',
      getObjectKey = UserKey sample_key\<rparr>"

definition sample_file :: MulterFile where
  "sample_file =
     \<lparr>fieldname = ''file'', originalname = ''a.txt'', encoding = ''7bit'',
      mimetype = ''text/plain'', MulterFile.size = 0, stream = Readable [104, 105]\<rparr>"

definition sample_stored :: File where
  "sample_stored =
     \<lparr>fieldname = ''file'', originalname = ''a.txt'', encoding = ''7bit'',
      mimetype = ''text/plain'', MulterFile.size = 2, stream = Readable [],
      File.bucket = ''uploads'', File.key = ''a.txt'',
      File.location = ''https://s3.example.test/uploads/a.txt'', File.etag = ''e1''\<rparr>"

definition sample_entropy :: "js_error + 8 word list" where
  "sample_entropy = Inr [0, 1, 2, 3, 4, 5, 6, 7, 8, 9, 10, 11, 12, 13, 14, 255, 16, 17]"

definition sample_data :: SendData where
  "sample_data =
     \<lparr>ETag = ''e1'', Location = ''https://s3.example.test/uploads/a.txt'',
      SendData.Key = ''a.txt'', SendData.Bucket = ''uploads''\<rparr>"

definition sample_run :: UploadRun where
  "sample_run =
     \<lparr>progress = [\<lparr>loaded = 1, total = Some 2\<rparr>, \<lparr>loaded = 2, total = Some 5\<rparr>,
                  \<lparr>loaded = 5, total = None\<rparr>, \<lparr>loaded = 5, total = Some 0\<rparr>],
      settled = Inr sample_data\<rparr>"

definition sample_failed_run :: UploadRun where
  "sample_failed_run =
     \<lparr>progress = [\<lparr>loaded = 1, total = Some 2\<rparr>],
      settled = Inl (JsError ''AccessDenied'')\<rparr>"

section \<open>Validation and construction\<close>

lemma validate_cases:
  "validateStorageParams p =
     (if empty_required p = [] then Inr ()
      else Inl (ThrowArray (map (\<lambda>n. \<lparr>param = n, message =
         (if n = ''endpoint'' then ''Failed to upload file: endpoint cannot be empty.''
          else if n = ''bucket'' then ''Failed to upload file: bucket name cannot be empty.''
          else if n = ''apiKeyId'' then ''Failed to upload file: Failed to upload file: API KEY ID cannot be empty.''
          else ''Failed to upload file: Service Instance Id cannot be empty.'')\<rparr>) (empty_required p))))"
  by (simp add: validateStorageParams_def empty_required_def required_params_def not_string_def Let_def)

lemma validate_params:
  "validateStorageParams p = Inl t \<Longrightarrow> \<exists>errs. t = ThrowArray errs \<and> map param errs = empty_required p"
  by (auto simp add: validate_cases comp_def split: if_splits)

lemma validate_iff: "isl (validateStorageParams p) = (empty_required p \<noteq> [])"
  by (simp add: validate_cases)

lemma empty_required_iff: "(empty_required p \<noteq> []) = some_required_empty p"
  by (simp add: empty_required_def required_params_def some_required_empty_def)

lemma helper_opts_required: "empty_required (helper_opts p) = empty_required p"
  by (simp add: empty_required_def required_params_def helper_opts_def)

lemma count_param:
  "length (filter (\<lambda>e. param e = n) errs) = length (filter (\<lambda>x. x = n) (map param errs))"
  by (induction errs) auto

lemma one_error_each:
  assumes "map param errs = empty_required p"
  shows "\<forall>(n, get) \<in> set required_params.
           length (filter (\<lambda>e. param e = n) errs) = (if get p = [] then 1 else 0)"
  using assms
  by (simp add: count_param empty_required_def required_params_def)

lemma validate_ok: "\<not> some_required_empty p \<Longrightarrow> validateStorageParams p = Inr ()"
  using validate_iff[of p] by (cases "validateStorageParams p") (auto simp add: empty_required_iff)

lemma validate_helper_opts_ok:
  "\<not> some_required_empty p \<Longrightarrow> validateStorageParams (helper_opts p) = Inr ()"
  using validate_iff[of "helper_opts p"]
  by (cases "validateStorageParams (helper_opts p)")
     (auto simp add: helper_opts_required empty_required_iff)

lemma constructor_throws:
  "validateStorageParams p = Inl t \<Longrightarrow> CosStorage_constructor new_S3 p = (Inl t, [])"
  by (simp add: CosStorage_constructor_def)

lemma single_throws:
  "validateStorageParams p = Inl t \<Longrightarrow> cosSingleUpload new_S3 p = (Inl t, [])"
  by (simp add: cosSingleUpload_def)

lemma multiple_throws:
  "validateStorageParams p = Inl t \<Longrightarrow> cosMultipleUpload new_S3 p = (Inl t, [])"
  by (simp add: cosMultipleUpload_def)

lemma constructor_sdk_throws:
  "\<not> some_required_empty p \<Longrightarrow> new_S3 (client_options p) = Some e \<Longrightarrow>
     CosStorage_constructor new_S3 p = (Inl (ThrowError e), [])"
  by (simp add: CosStorage_constructor_def validate_ok)

lemma constructor_ok:
  "\<not> some_required_empty p \<Longrightarrow> new_S3 (client_options p) = None \<Longrightarrow>
     \<exists>e. CosStorage_constructor new_S3 p = (Inr e, [cos e]) \<and>
         cos e = client_options p \<and>
         CosStorage.bucket e = StorageParams.bucket p"
  by (simp add: CosStorage_constructor_def validate_ok)

lemma constructor_returned:
  "CosStorage_constructor new_S3 p = (Inr e, clients) \<Longrightarrow>
     cos e = client_options p \<and> CosStorage.bucket e = StorageParams.bucket p \<and> clients = [cos e]"
  by (auto simp add: CosStorage_constructor_def split: sum.splits option.splits)

lemma helper_client_options:
  "S3.signatureVersion (client_options (helper_opts p)) =
     Some (or_string (StorageParams.signatureVersion p) ''iam'')"
  by (simp add: client_options_def helper_opts_def)

lemma single_sdk_throws:
  "\<not> some_required_empty p \<Longrightarrow> new_S3 (client_options (helper_opts p)) = Some e \<Longrightarrow>
     cosSingleUpload new_S3 p = (Inl (ThrowError e), [])"
  by (simp add: cosSingleUpload_def CosStorage_constructor_def validate_ok validate_helper_opts_ok)

lemma multiple_sdk_throws:
  "\<not> some_required_empty p \<Longrightarrow> new_S3 (client_options (helper_opts p)) = Some e \<Longrightarrow>
     cosMultipleUpload new_S3 p = (Inl (ThrowError e), [])"
  by (simp add: cosMultipleUpload_def CosStorage_constructor_def validate_ok validate_helper_opts_ok)

lemma single_ok:
  "\<not> some_required_empty p \<Longrightarrow> new_S3 (client_options (helper_opts p)) = None \<Longrightarrow>
     \<exists>m. cosSingleUpload new_S3 p = (Inr m, [cos (storage m)])"
  by (simp add: cosSingleUpload_def CosStorage_constructor_def validate_ok validate_helper_opts_ok)

lemma multiple_ok:
  "\<not> some_required_empty p \<Longrightarrow> new_S3 (client_options (helper_opts p)) = None \<Longrightarrow>
     \<exists>m. cosMultipleUpload new_S3 p = (Inr m, [cos (storage m)])"
  by (simp add: cosMultipleUpload_def CosStorage_constructor_def validate_ok validate_helper_opts_ok)

lemma single_returned:
  "fst (cosSingleUpload new_S3 p) = Inr m \<Longrightarrow>
     field m = Single (or_string (fieldName p) ''file'') \<and>
     cos (storage m) = client_options (helper_opts p)"
  by (auto simp add: cosSingleUpload_def CosStorage_constructor_def
      split: sum.splits option.splits)

lemma multiple_returned:
  "fst (cosMultipleUpload new_S3 p) = Inr m \<Longrightarrow>
     field m = Array (or_string (fieldName p) ''files'') (maxCount p) \<and>
     cos (storage m) = client_options (helper_opts p)"
  by (auto simp add: cosMultipleUpload_def CosStorage_constructor_def
      split: sum.splits option.splits)

text \<open>
  Claim C3 says that construction throws only if a required parameter is empty. The
  constructor also calls \<^verbatim>\<open>new ibm.S3\<close>, and what that throws leaves every entry point
  uncaught: with the four parameters non-empty and an endpoint the SDK refuses,
  construction throws the SDK's \<^verbatim>\<open>Error\<close>.
\<close>
theorem sdk_refusal_thrown_counterexample:
  "\<not> some_required_empty (sample_params\<lparr>StorageParams.endpoint := ''https://xn--''\<rparr>) \<and>
   fst (CosStorage_constructor sample_new_S3
          (sample_params\<lparr>StorageParams.endpoint := ''https://xn--''\<rparr>))
     = Inl (ThrowError (JsError ''TypeError: Invalid URL'')) \<and>
   fst (cosSingleUpload sample_new_S3
          (sample_params\<lparr>StorageParams.endpoint := ''https://xn--''\<rparr>))
     = Inl (ThrowError (JsError ''TypeError: Invalid URL'')) \<and>
   fst (cosMultipleUpload sample_new_S3
          (sample_params\<lparr>StorageParams.endpoint := ''https://xn--''\<rparr>))
     = Inl (ThrowError (JsError ''TypeError: Invalid URL''))"
  by (simp add: some_required_empty_def sample_params_def sample_new_S3_def
      CosStorage_constructor_def cosSingleUpload_def cosMultipleUpload_def helper_opts_def
      client_options_def validateStorageParams_def not_string_def)

text \<open>
  Claim C3, amended. Constructing the engine, directly (\<^verbatim>\<open>new CosStorage\<close>, the default
  export) or through \<^verbatim>\<open>cosSingleUpload\<close> and \<^verbatim>\<open>cosMultipleUpload\<close>, throws an array of
  parameter errors exactly when one of \<^verbatim>\<open>endpoint\<close>, \<^verbatim>\<open>bucket\<close>, \<^verbatim>\<open>apiKeyId\<close>,
  \<^verbatim>\<open>serviceInstanceId\<close> is empty. The array then holds one error for each empty required
  parameter and none for any other name, and no SDK client has been constructed. When
  the four are non-empty, construction throws exactly when the SDK's client constructor
  throws, and what is thrown is the SDK's error.
\<close>
theorem construction_throws_array_iff_required_empty:
  "((\<exists>errs. fst (CosStorage_constructor new_S3 p) = Inl (ThrowArray errs)) \<longleftrightarrow> some_required_empty p) \<and>
   ((\<exists>errs. fst (default_export new_S3 p) = Inl (ThrowArray errs)) \<longleftrightarrow> some_required_empty p) \<and>
   ((\<exists>errs. fst (cosSingleUpload new_S3 p) = Inl (ThrowArray errs)) \<longleftrightarrow> some_required_empty p) \<and>
   ((\<exists>errs. fst (cosMultipleUpload new_S3 p) = Inl (ThrowArray errs)) \<longleftrightarrow> some_required_empty p) \<and>
   (some_required_empty p \<longrightarrow>
      (\<exists>errs.
         CosStorage_constructor new_S3 p = (Inl (ThrowArray errs), []) \<and>
         default_export new_S3 p = (Inl (ThrowArray errs), []) \<and>
         cosSingleUpload new_S3 p = (Inl (ThrowArray errs), []) \<and>
         cosMultipleUpload new_S3 p = (Inl (ThrowArray errs), []) \<and>
         (\<forall>(n, get) \<in> set required_params.
            length (filter (\<lambda>e. param e = n) errs) = (if get p = [] then 1 else 0)) \<and>
         (\<forall>e \<in> set errs. param e \<in> fst ` set required_params))) \<and>
   (\<not> some_required_empty p \<longrightarrow>
      (\<forall>e. new_S3 (client_options p) = Some e \<longrightarrow>
           CosStorage_constructor new_S3 p = (Inl (ThrowError e), []) \<and>
           default_export new_S3 p = (Inl (ThrowError e), [])) \<and>
      (new_S3 (client_options p) = None \<longrightarrow>
           \<not> isl (fst (CosStorage_constructor new_S3 p)) \<and>
           \<not> isl (fst (default_export new_S3 p))) \<and>
      (\<forall>e. new_S3 (client_options (helper_opts p)) = Some e \<longrightarrow>
           cosSingleUpload new_S3 p = (Inl (ThrowError e), []) \<and>
           cosMultipleUpload new_S3 p = (Inl (ThrowError e), [])) \<and>
      (new_S3 (client_options (helper_opts p)) = None \<longrightarrow>
           \<not> isl (fst (cosSingleUpload new_S3 p)) \<and>
           \<not> isl (fst (cosMultipleUpload new_S3 p))))"
proof (cases "validateStorageParams p")
  case (Inl t)
  then obtain errs where t: "t = ThrowArray errs" and ps: "map param errs = empty_required p"
    using validate_params by blast
  have e: "some_required_empty p"
    using validate_iff[of p] Inl by (simp add: empty_required_iff)
  have sub: "\<forall>e \<in> set errs. param e \<in> fst ` set required_params"
  proof
    fix x assume "x \<in> set errs"
    then have "param x \<in> set (map param errs)" by simp
    then show "param x \<in> fst ` set required_params"
      unfolding ps empty_required_def by auto
  qed
  show ?thesis
    using e one_error_each[OF ps] sub
      constructor_throws[OF Inl, of new_S3] single_throws[OF Inl, of new_S3]
      multiple_throws[OF Inl, of new_S3]
    unfolding t default_export_def by (intro conjI impI exI[of _ errs]) simp_all
next
  case (Inr u)
  have e: "\<not> some_required_empty p"
    using validate_iff[of p] Inr by (simp add: empty_required_iff)
  have direct: "\<not> (\<exists>errs. fst (CosStorage_constructor new_S3 p) = Inl (ThrowArray errs))"
    using constructor_sdk_throws[OF e, of new_S3] constructor_ok[OF e, of new_S3]
    by (cases "new_S3 (client_options p)") auto
  have single: "\<not> (\<exists>errs. fst (cosSingleUpload new_S3 p) = Inl (ThrowArray errs))"
    using single_sdk_throws[OF e, of new_S3] single_ok[OF e, of new_S3]
    by (cases "new_S3 (client_options (helper_opts p))") auto
  have multiple: "\<not> (\<exists>errs. fst (cosMultipleUpload new_S3 p) = Inl (ThrowArray errs))"
    using multiple_sdk_throws[OF e, of new_S3] multiple_ok[OF e, of new_S3]
    by (cases "new_S3 (client_options (helper_opts p))") auto
  have ok1: "new_S3 (client_options p) = None \<longrightarrow> \<not> isl (fst (CosStorage_constructor new_S3 p))"
    using constructor_ok[OF e, of new_S3] by auto
  have ok2: "new_S3 (client_options (helper_opts p)) = None \<longrightarrow>
               \<not> isl (fst (cosSingleUpload new_S3 p)) \<and> \<not> isl (fst (cosMultipleUpload new_S3 p))"
    using single_ok[OF e, of new_S3] multiple_ok[OF e, of new_S3] by auto
  show ?thesis
    using e direct single multiple ok1 ok2
      constructor_sdk_throws[OF e, of new_S3] single_sdk_throws[OF e, of new_S3]
      multiple_sdk_throws[OF e, of new_S3]
    unfolding default_export_def by simp
qed

theorem construction_throws_array_iff_required_empty_witness:
  "some_required_empty (sample_params\<lparr>StorageParams.endpoint := [], StorageParams.apiKeyId := []\<rparr>) \<and>
   (\<exists>errs. cosSingleUpload sample_new_S3
              (sample_params\<lparr>StorageParams.endpoint := [], StorageParams.apiKeyId := []\<rparr>)
              = (Inl (ThrowArray errs), []) \<and>
           length (filter (\<lambda>e. param e = ''endpoint'') errs) = 1 \<and>
           length (filter (\<lambda>e. param e = ''bucket'') errs) = 0 \<and>
           length (filter (\<lambda>e. param e = ''apiKeyId'') errs) = 1 \<and>
           length (filter (\<lambda>e. param e = ''serviceInstanceId'') errs) = 0) \<and>
   \<not> some_required_empty sample_params \<and>
   sample_new_S3 (client_options sample_params) = None \<and>
   \<not> isl (fst (CosStorage_constructor sample_new_S3 sample_params)) \<and>
   \<not> some_required_empty (sample_params\<lparr>StorageParams.endpoint := ''https://xn--''\<rparr>) \<and>
   sample_new_S3 (client_options (sample_params\<lparr>StorageParams.endpoint := ''https://xn--''\<rparr>))
     = Some (JsError ''TypeError: Invalid URL'') \<and>
   CosStorage_constructor sample_new_S3 (sample_params\<lparr>StorageParams.endpoint := ''https://xn--''\<rparr>)
     = (Inl (ThrowError (JsError ''TypeError: Invalid URL'')), [])"
proof -
  let ?p = "sample_params\<lparr>StorageParams.endpoint := [], StorageParams.apiKeyId := []\<rparr>"
  let ?q = "sample_params\<lparr>StorageParams.endpoint := ''https://xn--''\<rparr>"
  have e: "some_required_empty ?p"
    by (simp add: some_required_empty_def)
  have ok: "\<not> some_required_empty sample_params"
    by (simp add: some_required_empty_def sample_params_def)
  have accepted: "sample_new_S3 (client_options sample_params) = None"
    by (simp add: sample_new_S3_def client_options_def sample_params_def)
  have okq: "\<not> some_required_empty ?q"
    by (simp add: some_required_empty_def sample_params_def)
  have refused: "sample_new_S3 (client_options ?q) = Some (JsError ''TypeError: Invalid URL'')"
    by (simp add: sample_new_S3_def client_options_def)
  from construction_throws_array_iff_required_empty [of sample_new_S3 ?p] e
  obtain errs where
    thrown: "cosSingleUpload sample_new_S3 ?p = (Inl (ThrowArray errs), [])" and
    each: "\<forall>(n, get) \<in> set required_params.
             length (filter (\<lambda>e. param e = n) errs) = (if get ?p = [] then 1 else 0)"
    by blast
  from each have counts:
    "length (filter (\<lambda>e. param e = ''endpoint'') errs) = 1 \<and>
     length (filter (\<lambda>e. param e = ''bucket'') errs) = 0 \<and>
     length (filter (\<lambda>e. param e = ''apiKeyId'') errs) = 1 \<and>
     length (filter (\<lambda>e. param e = ''serviceInstanceId'') errs) = 0"
    by (simp add: required_params_def sample_params_def)
  have first: "\<exists>errs. cosSingleUpload sample_new_S3 ?p = (Inl (ThrowArray errs), []) \<and>
           length (filter (\<lambda>e. param e = ''endpoint'') errs) = 1 \<and>
           length (filter (\<lambda>e. param e = ''bucket'') errs) = 0 \<and>
           length (filter (\<lambda>e. param e = ''apiKeyId'') errs) = 1 \<and>
           length (filter (\<lambda>e. param e = ''serviceInstanceId'') errs) = 0"
    using thrown counts by blast
  have second: "\<not> isl (fst (CosStorage_constructor sample_new_S3 sample_params))"
    using construction_throws_array_iff_required_empty [of sample_new_S3 sample_params] ok accepted
    by blast
  have third: "CosStorage_constructor sample_new_S3 ?q
                 = (Inl (ThrowError (JsError ''TypeError: Invalid URL'')), [])"
    using construction_throws_array_iff_required_empty [of sample_new_S3 ?q] okq refused
    by blast
  show ?thesis
    using e first ok accepted second okq refused third by blast
qed

text \<open>
  Claim C10. What \<^verbatim>\<open>validateStorageParams\<close> throws is the array of errors itself, not
  an \<^verbatim>\<open>Error\<close> instance; all failures come in this one throw, and the entries name the
  empty parameters in the order endpoint, bucket, apiKeyId, serviceInstanceId.
\<close>
theorem validation_throws_ordered_array:
  "validateStorageParams p = Inl t \<Longrightarrow>
     (\<exists>errs. t = ThrowArray errs \<and> errs \<noteq> [] \<and> map param errs = empty_required p) \<and>
     (\<forall>e. t \<noteq> ThrowError e)"
  by (auto simp add: validate_cases comp_def split: if_splits)

theorem validation_throws_ordered_array_witness:
  "validateStorageParams (sample_params\<lparr>StorageParams.serviceInstanceId := [], StorageParams.bucket := []\<rparr>)
     = Inl (ThrowArray
         [\<lparr>param = ''bucket'', message = ''Failed to upload file: bucket name cannot be empty.''\<rparr>,
          \<lparr>param = ''serviceInstanceId'',
           message = ''Failed to upload file: Service Instance Id cannot be empty.''\<rparr>]) \<and>
   empty_required (sample_params\<lparr>StorageParams.serviceInstanceId := [], StorageParams.bucket := []\<rparr>)
     = [''bucket'', ''serviceInstanceId'']"
proof -
  let ?p = "sample_params\<lparr>StorageParams.serviceInstanceId := [], StorageParams.bucket := []\<rparr>"
  have v: "validateStorageParams ?p
     = Inl (ThrowArray
         [\<lparr>param = ''bucket'', message = ''Failed to upload file: bucket name cannot be empty.''\<rparr>,
          \<lparr>param = ''serviceInstanceId'',
           message = ''Failed to upload file: Service Instance Id cannot be empty.''\<rparr>])"
    by (simp add: validateStorageParams_def sample_params_def not_string_def)
  from validation_throws_ordered_array [OF v]
  have "empty_required ?p = [''bucket'', ''serviceInstanceId'']" by simp
  with v show ?thesis by simp
qed

section \<open>Uploads and removals\<close>

lemma foldl_progress_snoc:
  "foldl on_httpUploadProgress s (events @ [e]) =
     on_httpUploadProgress (foldl on_httpUploadProgress s events) e"
  by simp

lemma last_truthy_total_snoc:
  "last_truthy_total (events @ [e]) =
     (if truthy_total e then (case total e of Some t \<Rightarrow> t | None \<Rightarrow> 0)
      else last_truthy_total events)"
  by (simp add: last_truthy_total_def)

lemma on_progress_truthy:
  "on_httpUploadProgress s e =
     (if truthy_total e then (case total e of Some t \<Rightarrow> t | None \<Rightarrow> 0) else s)"
  by (simp add: on_httpUploadProgress_def truthy_total_def split: option.splits)

lemma tracked_size: "foldl on_httpUploadProgress 0 events = last_truthy_total events"
proof (induction events rule: rev_induct)
  case Nil
  show ?case by (simp add: last_truthy_total_def)
next
  case (snoc e events)
  show ?case
    unfolding foldl_progress_snoc last_truthy_total_snoc snoc.IH[symmetric]
    by (rule on_progress_truthy)
qed

lemma handleFile_uploads:
  "uploads (handleFile this req file callback entropy run) =
     [\<lparr>UploadParams.Bucket = CosStorage.bucket this,
       UploadParams.Key = fst (call_getObjectKey (getObjectKey this) req file entropy),
       Body = stream file\<rparr>]"
  by (simp add: handleFile_def Let_def split: prod.splits)

lemma handleFile_this:
  "HandleOutcome.this_after (handleFile this req file callback entropy run) = this"
  by (simp add: handleFile_def Let_def split: prod.splits)

lemma removeFile_this: "RemoveOutcome.this_after (removeFile this req file err) = this"
  by (simp add: removeFile_def Let_def)

lemma user_key_used:
  "call_getObjectKey (UserKey f) req file entropy = (JsString (f req file), [])"
  by (simp add: call_getObjectKey_def)

lemma getFilename_returns_undefined: "fst (getFilename req file cb entropy) = JsUndefined"
  by (simp add: getFilename_def)

lemma getFilename_hex:
  "snd (getFilename req file (Some f) (Inr bytes)) = Inr (f None (Some (toString_hex (take 16 bytes))))"
  by (simp add: getFilename_def randomBytes_def)

lemma default_key_undefined:
  "call_getObjectKey GetFilename req file entropy = (JsUndefined, [not_a_function])"
  by (simp add: call_getObjectKey_def getFilename_def split: sum.splits)

lemma handleFile_default_key:
  "getObjectKey this = GetFilename \<Longrightarrow>
     HandleOutcome.callbacks (handleFile this req file callback entropy run) = [] \<and>
     uncaught (handleFile this req file callback entropy run) = [not_a_function]"
  by (simp add: handleFile_def default_key_undefined)

lemma handleFile_user_key:
  "getObjectKey this = UserKey f \<Longrightarrow>
     (HandleOutcome.callbacks (handleFile this req file callback entropy run),
      uncaught (handleFile this req file callback entropy run)) =
     (case settled run of
        Inr res \<Rightarrow> then_handler callback (foldl on_httpUploadProgress 0 (progress run)) res
      | Inl err \<Rightarrow> catch_handler callback err)"
  by (simp add: handleFile_def user_key_used Let_def split: prod.splits sum.splits)

lemma then_handler_calls:
  "\<exists>rest. fst (then_handler callback fileSize res) =
            HandleCallback None
              (Some \<lparr>etag = ETag res, location = Location res, key = SendData.Key res,
                     bucket = SendData.Bucket res, size = fileSize\<rparr>) # rest \<and>
          (\<forall>info. HandleCallback None (Some info) \<notin> set rest) \<and>
          (callback (HandleCallback None
              (Some \<lparr>etag = ETag res, location = Location res, key = SendData.Key res,
                     bucket = SendData.Bucket res, size = fileSize\<rparr>)) = None \<longrightarrow> rest = [])"
  by (simp add: then_handler_def catch_handler_def Let_def split: option.splits)

lemma catch_handler_calls:
  "fst (catch_handler callback err) = [HandleCallback (Some err) None]"
  by (simp add: catch_handler_def Let_def)

lemma handleFile_success_calls:
  "HandleCallback None (Some info) \<in> set (HandleOutcome.callbacks (handleFile this req file callback entropy run))
     \<Longrightarrow> size info = foldl on_httpUploadProgress 0 (progress run)"
proof (cases "getObjectKey this")
  case GetFilename
  assume "HandleCallback None (Some info) \<in> set (HandleOutcome.callbacks (handleFile this req file callback entropy run))"
  then show ?thesis using handleFile_default_key[OF GetFilename] by simp
next
  case (UserKey f)
  assume m: "HandleCallback None (Some info) \<in> set (HandleOutcome.callbacks (handleFile this req file callback entropy run))"
  show ?thesis
  proof (cases "settled run")
    case (Inl err)
    then show ?thesis
      using m handleFile_user_key[OF UserKey, of req "file" callback entropy run]
        catch_handler_calls[of callback err]
      by (cases "catch_handler callback err") auto
  next
    case (Inr res)
    then show ?thesis
      using m handleFile_user_key[OF UserKey, of req "file" callback entropy run]
        then_handler_calls[of callback "foldl on_httpUploadProgress 0 (progress run)" res]
      by (cases "then_handler callback (foldl on_httpUploadProgress 0 (progress run)) res") auto
  qed
qed

text \<open>
  With a key function of the user's and a callback that returns, the callback is invoked
  once: with the object information on success, with the error on failure.
\<close>

lemma handleFile_keyed_calls_back_once:
  assumes "getObjectKey this = UserKey f" and "\<forall>c. callback c = None"
  shows "HandleOutcome.callbacks (handleFile this req file callback entropy run) =
           (case settled run of
              Inr res \<Rightarrow> [HandleCallback None
                            (Some \<lparr>etag = ETag res, location = Location res,
                                   key = SendData.Key res, bucket = SendData.Bucket res,
                                   size = foldl on_httpUploadProgress 0 (progress run)\<rparr>)]
            | Inl err \<Rightarrow> [HandleCallback (Some err) None])"
  using handleFile_user_key[OF assms(1), of req "file" callback entropy run] assms(2)
  by (cases "settled run") (auto simp add: then_handler_def catch_handler_def Let_def)

text \<open>A callback that throws when handed the success is invoked a second time by \<^verbatim>\<open>.catch\<close>.\<close>

lemma throwing_callback_invoked_twice:
  "HandleOutcome.callbacks
     (handleFile sample_keyed_engine (Request 1) sample_file throwing_callback sample_entropy sample_run) =
     [HandleCallback None
        (Some \<lparr>etag = ''e1'', location = ''https://s3.example.test/uploads/a.txt'',
               key = ''a.txt'', bucket = ''uploads'', size = 5\<rparr>),
      HandleCallback (Some (JsError ''boom'')) None]"
  by (simp add: handleFile_def user_key_used sample_keyed_engine_def sample_run_def sample_data_def
      then_handler_def catch_handler_def throwing_callback_def on_httpUploadProgress_def)

text \<open>
  Claim C2 says that \<^verbatim>\<open>_handleFile\<close> invokes its callback exactly once. For an engine
  constructed without \<^verbatim>\<open>key\<close> the code never invokes it: the callback of
  \<^verbatim>\<open>crypto.randomBytes\<close> calls the \<^verbatim>\<open>cb\<close> that \<^verbatim>\<open>getFilename\<close> was not given, and the
  uncaught \<^verbatim>\<open>TypeError\<close> ends the process before the upload settles.
\<close>
theorem default_key_never_calls_back:
  "settled sample_run = Inr sample_data \<and>
   HandleOutcome.callbacks
     (handleFile sample_engine (Request 1) sample_file returning_callback sample_entropy sample_run) = [] \<and>
   uncaught
     (handleFile sample_engine (Request 1) sample_file returning_callback sample_entropy sample_run) =
     [ThrowError (JsError ''TypeError: cb is not a function'')]"
  by (simp add: handleFile_def default_key_undefined sample_engine_def sample_run_def
      not_a_function_def)


text \<open>
  Claim C6. The size reported in a success callback is the \<^verbatim>\<open>total\<close> of the last progress
  event that carried a truthy one, and 0 when no event did; an event whose \<^verbatim>\<open>total\<close> is
  absent or zero leaves the tracked size as it was. Every invocation that reports a success
  carries that size, and an engine with a key function of the user's makes such an
  invocation first whenever the upload resolves (and no other if it returns).
\<close>
theorem reported_size_is_last_truthy_total:
  "(\<forall>info. HandleCallback None (Some info)
             \<in> set (HandleOutcome.callbacks (handleFile this req file callback entropy run)) \<longrightarrow>
           size info = last_truthy_total (progress run)) \<and>
   (\<forall>f res. getObjectKey this = UserKey f \<and> settled run = Inr res \<longrightarrow>
      (\<exists>info rest.
         HandleOutcome.callbacks (handleFile this req file callback entropy run) =
           HandleCallback None (Some info) # rest \<and>
         size info = last_truthy_total (progress run) \<and>
         (callback (HandleCallback None (Some info)) = None \<longrightarrow> rest = []))) \<and>
   (\<forall>s e. \<not> truthy_total e \<longrightarrow> on_httpUploadProgress s e = s)"
proof (intro conjI allI impI)
  fix info
  assume "HandleCallback None (Some info)
            \<in> set (HandleOutcome.callbacks (handleFile this req file callback entropy run))"
  then show "size info = last_truthy_total (progress run)"
    using handleFile_success_calls by (simp add: tracked_size)
next
  fix f res
  assume a: "getObjectKey this = UserKey f \<and> settled run = Inr res"
  from then_handler_calls[of callback "last_truthy_total (progress run)" res]
  obtain rest where
    r: "fst (then_handler callback (last_truthy_total (progress run)) res) =
          HandleCallback None
            (Some \<lparr>etag = ETag res, location = Location res, key = SendData.Key res,
                   bucket = SendData.Bucket res, size = last_truthy_total (progress run)\<rparr>) # rest"
       "callback (HandleCallback None
            (Some \<lparr>etag = ETag res, location = Location res, key = SendData.Key res,
                   bucket = SendData.Bucket res, size = last_truthy_total (progress run)\<rparr>)) = None
          \<longrightarrow> rest = []"
    by auto
  have "HandleOutcome.callbacks (handleFile this req file callback entropy run) =
          fst (then_handler callback (last_truthy_total (progress run)) res)"
    using a handleFile_user_key[of this f req "file" callback entropy run]
    by (simp add: tracked_size prod_eq_iff)
  with r show "\<exists>info rest.
         HandleOutcome.callbacks (handleFile this req file callback entropy run) =
           HandleCallback None (Some info) # rest \<and>
         size info = last_truthy_total (progress run) \<and>
         (callback (HandleCallback None (Some info)) = None \<longrightarrow> rest = [])"
    by (intro exI[of _ "\<lparr>etag = ETag res, location = Location res, key = SendData.Key res,
                   bucket = SendData.Bucket res, size = last_truthy_total (progress run)\<rparr>"]
              exI[of _ rest]) simp
next
  fix s e
  assume "\<not> truthy_total e"
  then show "on_httpUploadProgress s e = s" by (simp add: on_progress_truthy)
qed

theorem reported_size_is_last_truthy_total_witness:
  "getObjectKey sample_keyed_engine = UserKey sample_key \<and>
   settled sample_run = Inr sample_data \<and>
   last_truthy_total (progress sample_run) = 5 \<and>
   (\<exists>info. HandleOutcome.callbacks
              (handleFile sample_keyed_engine (Request 1) sample_file returning_callback
                 sample_entropy sample_run) =
              [HandleCallback None (Some info)] \<and> size info = 5) \<and>
   \<not> truthy_total \<lparr>loaded = 5, total = Some 0\<rparr> \<and>
   on_httpUploadProgress 5 \<lparr>loaded = 5, total = Some 0\<rparr> = 5"
proof -
  have k: "getObjectKey sample_keyed_engine = UserKey sample_key"
    by (simp add: sample_keyed_engine_def)
  have ok: "settled sample_run = Inr sample_data"
    by (simp add: sample_run_def)
  have l: "last_truthy_total (progress sample_run) = 5"
    by (simp add: sample_run_def last_truthy_total_def truthy_total_def)
  have z: "\<not> truthy_total \<lparr>loaded = 5, total = Some 0\<rparr>"
    by (simp add: truthy_total_def)
  note inst = reported_size_is_last_truthy_total
    [of sample_keyed_engine "Request 1" sample_file returning_callback sample_entropy sample_run]
  note second = inst [THEN conjunct2, THEN conjunct1, rule_format, of sample_key sample_data]
  from second [OF conjI [OF k ok]] obtain info rest where
    cb: "HandleOutcome.callbacks
           (handleFile sample_keyed_engine (Request 1) sample_file returning_callback
              sample_entropy sample_run) = HandleCallback None (Some info) # rest"
    and sz: "size info = last_truthy_total (progress sample_run)"
    and one: "returning_callback (HandleCallback None (Some info)) = None \<longrightarrow> rest = []"
    by (elim exE conjE)
  have "rest = []" using one by (simp add: returning_callback_def)
  with cb sz l have
    "\<exists>info. HandleOutcome.callbacks
              (handleFile sample_keyed_engine (Request 1) sample_file returning_callback
                 sample_entropy sample_run) =
              [HandleCallback None (Some info)] \<and> size info = 5"
    by simp
  moreover have "on_httpUploadProgress 5 \<lparr>loaded = 5, total = Some 0\<rparr> = 5"
    using inst [THEN conjunct2, THEN conjunct2, rule_format, OF z] .
  ultimately show ?thesis using k ok l z by blast
qed

text \<open>
  Claim C7. \<^verbatim>\<open>_removeFile\<close> issues exactly one delete request, for the object named by the
  file record: \<^verbatim>\<open>Bucket = file.bucket\<close>, \<^verbatim>\<open>Key = file.key\<close>.
\<close>
theorem removeFile_one_delete:
  "\<exists>d. deletes (removeFile this req file err) = [d] \<and>
       DeleteParams.Bucket d = File.bucket file \<and> DeleteParams.Key d = File.key file"
  by (simp add: removeFile_def)

text \<open>
  Claim C4 says that \<^verbatim>\<open>_removeFile\<close> invokes its callback exactly once. When the delete
  succeeds the code invokes it twice with \<^verbatim>\<open>null\<close>: \<^verbatim>\<open>callback(null)\<close> inside the
  \<^verbatim>\<open>if\<close>, and then the unconditional \<^verbatim>\<open>callback(err)\<close> with \<^verbatim>\<open>err = null\<close>.
\<close>
theorem removeFile_success_calls_back_twice:
  "RemoveOutcome.callbacks (removeFile sample_engine (Request 1) sample_stored None) = [None, None]"
  by (simp add: removeFile_def)

lemma removeFile_failure_calls_back_once:
  "RemoveOutcome.callbacks (removeFile this req file (Some e)) = [Some e]"
  by (simp add: removeFile_def)

text \<open>
  Claim C1 says that the upload request carries a string key, a random hexadecimal filename
  when no \<^verbatim>\<open>key\<close> option was given. For an engine constructed without \<^verbatim>\<open>key\<close> the code
  sends \<^verbatim>\<open>Key = undefined\<close>: \<^verbatim>\<open>getFilename\<close> delivers the filename to a callback, and
  \<^verbatim>\<open>_handleFile\<close> calls it without one and uses its return value. The deferred call of
  the missing callback raises a \<^verbatim>\<open>TypeError\<close>.
\<close>
theorem default_key_sent_undefined:
  "fst (CosStorage_constructor sample_new_S3 sample_params) = Inr sample_engine \<and>
   map UploadParams.Key
     (uploads (handleFile sample_engine (Request 1) sample_file returning_callback sample_entropy sample_run))
     = [JsUndefined] \<and>
   uncaught (handleFile sample_engine (Request 1) sample_file returning_callback sample_entropy sample_run)
     = [ThrowError (JsError ''TypeError: cb is not a function'')]"
  by (simp add: CosStorage_constructor_def validateStorageParams_def not_string_def
      client_options_def sample_new_S3_def
      sample_params_def sample_engine_def handleFile_def default_key_undefined not_a_function_def Let_def)

lemma user_key_sent:
  "map UploadParams.Key
     (uploads (handleFile (this\<lparr>getObjectKey := UserKey f\<rparr>) req file callback entropy run))
     = [JsString (f req file)]"
  by (simp add: handleFile_uploads user_key_used)

lemma toString_hex_sample:
  "toString_hex [0, 1, 171, 255] = ''0001abff''"
  by (simp add: toString_hex_def hex_byte_def hex_digit_def)

section \<open>Defaults of the helpers\<close>

text \<open>
  Claim C8 says that a user-supplied \<^verbatim>\<open>fieldName\<close> is used unchanged. The helpers
  take it through \<^verbatim>\<open>params.fieldName || "file"\<close>, so a supplied empty string is
  replaced by the default.
\<close>
theorem empty_fieldName_not_kept_counterexample:
  "map_sum id field (fst (cosSingleUpload sample_new_S3 (sample_params\<lparr>fieldName := Some ''''\<rparr>)))
     = Inr (Single ''file'') \<and>
   map_sum id field (fst (cosMultipleUpload sample_new_S3 (sample_params\<lparr>fieldName := Some ''''\<rparr>)))
     = Inr (Array ''files'' None) \<and>
   map_sum id field (fst (cosSingleUpload sample_new_S3 (sample_params\<lparr>fieldName := Some ''''\<rparr>)))
     \<noteq> Inr (Single '''')"
  by (simp add: cosSingleUpload_def cosMultipleUpload_def CosStorage_constructor_def helper_opts_def
      client_options_def sample_new_S3_def
      validateStorageParams_def not_string_def or_string_def sample_params_def Let_def)

lemma or_string_cases:
  "(a = None \<or> a = Some [] \<longrightarrow> or_string a d = d) \<and>
   (\<forall>s. a = Some s \<and> s \<noteq> [] \<longrightarrow> or_string a d = s)"
  by (auto simp add: or_string_def not_string_def)

text \<open>
  Claim C8, amended. Whenever \<^verbatim>\<open>cosSingleUpload\<close> or \<^verbatim>\<open>cosMultipleUpload\<close> returns a
  middleware (which it does when the four required parameters are non-empty and the SDK's
  client constructor does not throw), it has registered the field name \<^verbatim>\<open>"file"\<close>,
  respectively \<^verbatim>\<open>"files"\<close>, if \<^verbatim>\<open>fieldName\<close> is absent or the empty string, and has
  passed the signature version \<^verbatim>\<open>"iam"\<close> to the engine if \<^verbatim>\<open>signatureVersion\<close> is
  absent or the empty string; a supplied non-empty \<^verbatim>\<open>fieldName\<close> or
  \<^verbatim>\<open>signatureVersion\<close> is used unchanged.
\<close>
theorem helpers_default_field_and_signature:
  "(\<forall>ms. fst (cosSingleUpload new_S3 p) = Inr ms \<longrightarrow>
      (\<exists>ns v. field ms = Single ns \<and>
         S3.signatureVersion (cos (storage ms)) = Some v \<and>
         (fieldName p = None \<or> fieldName p = Some [] \<longrightarrow> ns = ''file'') \<and>
         (\<forall>s. fieldName p = Some s \<and> s \<noteq> [] \<longrightarrow> ns = s) \<and>
         (StorageParams.signatureVersion p = None \<or> StorageParams.signatureVersion p = Some []
            \<longrightarrow> v = ''iam'') \<and>
         (\<forall>s. StorageParams.signatureVersion p = Some s \<and> s \<noteq> [] \<longrightarrow> v = s))) \<and>
   (\<forall>mm. fst (cosMultipleUpload new_S3 p) = Inr mm \<longrightarrow>
      (\<exists>nm v. field mm = Array nm (maxCount p) \<and>
         S3.signatureVersion (cos (storage mm)) = Some v \<and>
         (fieldName p = None \<or> fieldName p = Some [] \<longrightarrow> nm = ''files'') \<and>
         (\<forall>s. fieldName p = Some s \<and> s \<noteq> [] \<longrightarrow> nm = s) \<and>
         (StorageParams.signatureVersion p = None \<or> StorageParams.signatureVersion p = Some []
            \<longrightarrow> v = ''iam'') \<and>
         (\<forall>s. StorageParams.signatureVersion p = Some s \<and> s \<noteq> [] \<longrightarrow> v = s))) \<and>
   (\<not> some_required_empty p \<and> new_S3 (client_options (helper_opts p)) = None \<longrightarrow>
      (\<exists>ms. fst (cosSingleUpload new_S3 p) = Inr ms) \<and>
      (\<exists>mm. fst (cosMultipleUpload new_S3 p) = Inr mm))"
proof (intro conjI allI impI)
  fix ms
  assume "fst (cosSingleUpload new_S3 p) = Inr ms"
  from single_returned[OF this]
  have "field ms = Single (or_string (fieldName p) ''file'')"
    and "S3.signatureVersion (cos (storage ms)) =
           Some (or_string (StorageParams.signatureVersion p) ''iam'')"
    by (simp_all add: helper_client_options)
  then show "\<exists>ns v. field ms = Single ns \<and>
         S3.signatureVersion (cos (storage ms)) = Some v \<and>
         (fieldName p = None \<or> fieldName p = Some [] \<longrightarrow> ns = ''file'') \<and>
         (\<forall>s. fieldName p = Some s \<and> s \<noteq> [] \<longrightarrow> ns = s) \<and>
         (StorageParams.signatureVersion p = None \<or> StorageParams.signatureVersion p = Some []
            \<longrightarrow> v = ''iam'') \<and>
         (\<forall>s. StorageParams.signatureVersion p = Some s \<and> s \<noteq> [] \<longrightarrow> v = s)"
    using or_string_cases[of "fieldName p" "''file''"]
      or_string_cases[of "StorageParams.signatureVersion p" "''iam''"]
    by (intro exI[of _ "or_string (fieldName p) ''file''"]
          exI[of _ "or_string (StorageParams.signatureVersion p) ''iam''"]) simp
next
  fix mm
  assume "fst (cosMultipleUpload new_S3 p) = Inr mm"
  from multiple_returned[OF this]
  have "field mm = Array (or_string (fieldName p) ''files'') (maxCount p)"
    and "S3.signatureVersion (cos (storage mm)) =
           Some (or_string (StorageParams.signatureVersion p) ''iam'')"
    by (simp_all add: helper_client_options)
  then show "\<exists>nm v. field mm = Array nm (maxCount p) \<and>
         S3.signatureVersion (cos (storage mm)) = Some v \<and>
         (fieldName p = None \<or> fieldName p = Some [] \<longrightarrow> nm = ''files'') \<and>
         (\<forall>s. fieldName p = Some s \<and> s \<noteq> [] \<longrightarrow> nm = s) \<and>
         (StorageParams.signatureVersion p = None \<or> StorageParams.signatureVersion p = Some []
            \<longrightarrow> v = ''iam'') \<and>
         (\<forall>s. StorageParams.signatureVersion p = Some s \<and> s \<noteq> [] \<longrightarrow> v = s)"
    using or_string_cases[of "fieldName p" "''files''"]
      or_string_cases[of "StorageParams.signatureVersion p" "''iam''"]
    by (intro exI[of _ "or_string (fieldName p) ''files''"]
          exI[of _ "or_string (StorageParams.signatureVersion p) ''iam''"]) simp
next
  assume a: "\<not> some_required_empty p \<and> new_S3 (client_options (helper_opts p)) = None"
  then show "\<exists>ms. fst (cosSingleUpload new_S3 p) = Inr ms"
    using single_ok[of p new_S3] by auto
  from a show "\<exists>mm. fst (cosMultipleUpload new_S3 p) = Inr mm"
    using multiple_ok[of p new_S3] by auto
qed

theorem helpers_default_field_and_signature_witness:
  "\<not> some_required_empty (sample_params\<lparr>fieldName := Some ''avatar''\<rparr>) \<and>
   sample_new_S3 (client_options (helper_opts (sample_params\<lparr>fieldName := Some ''avatar''\<rparr>))) = None \<and>
   (\<exists>ms mm. fst (cosSingleUpload sample_new_S3 (sample_params\<lparr>fieldName := Some ''avatar''\<rparr>)) = Inr ms \<and>
            field ms = Single ''avatar'' \<and>
            fst (cosMultipleUpload sample_new_S3 (sample_params\<lparr>fieldName := Some ''avatar''\<rparr>)) = Inr mm \<and>
            field mm = Array ''avatar'' None \<and>
            S3.signatureVersion (cos (storage ms)) = Some ''iam'' \<and>
            S3.signatureVersion (cos (storage mm)) = Some ''iam'')"
proof -
  let ?p = "sample_params\<lparr>fieldName := Some ''avatar''\<rparr>"
  have ok: "\<not> some_required_empty ?p"
    by (simp add: some_required_empty_def sample_params_def)
  have acc: "sample_new_S3 (client_options (helper_opts ?p)) = None"
    by (simp add: sample_new_S3_def client_options_def helper_opts_def sample_params_def)
  have f: "fieldName ?p = Some ''avatar''" "maxCount ?p = None"
    "StorageParams.signatureVersion ?p = None"
    by (simp_all add: sample_params_def)
  note inst = helpers_default_field_and_signature [of sample_new_S3 ?p]
  from inst ok acc obtain ms mm where
    r: "fst (cosSingleUpload sample_new_S3 ?p) = Inr ms"
       "fst (cosMultipleUpload sample_new_S3 ?p) = Inr mm"
    by blast
  from inst [THEN conjunct1, rule_format, OF r(1)]
  have s: "field ms = Single ''avatar'' \<and> S3.signatureVersion (cos (storage ms)) = Some ''iam''"
    unfolding f by auto
  from inst [THEN conjunct2, THEN conjunct1, rule_format, OF r(2)]
  have m: "field mm = Array ''avatar'' None \<and> S3.signatureVersion (cos (storage mm)) = Some ''iam''"
    unfolding f by auto
  show ?thesis using ok acc r s m by blast
qed

section \<open>Call sequences\<close>

lemma run_calls_HandleFile:
  "run_calls this (HandleFile req file callback entropy run # calls) =
     (fst (run_calls this calls),
      map UploadRequest (uploads (handleFile this req file callback entropy run))
        @ snd (run_calls this calls))"
  by (simp add: handleFile_this Let_def case_prod_beta)

lemma run_calls_RemoveFile:
  "run_calls this (RemoveFile req file err # calls) =
     (fst (run_calls this calls),
      map DeleteRequest (deletes (removeFile this req file err)) @ snd (run_calls this calls))"
  by (simp add: removeFile_this Let_def case_prod_beta)

lemma run_calls_this: "fst (run_calls this calls) = this"
proof (induction calls)
  case Nil
  show ?case by simp
next
  case (Cons c calls)
  then show ?case
    by (cases c) (simp_all only: run_calls_HandleFile run_calls_RemoveFile fst_conv)
qed

lemma run_calls_buckets:
  "UploadRequest u \<in> set (snd (run_calls this calls)) \<Longrightarrow>
     UploadParams.Bucket u = CosStorage.bucket this"
proof (induction calls)
  case Nil
  then show ?case by simp
next
  case (Cons c calls)
  then show ?case
    by (cases c) (auto simp add: run_calls_HandleFile run_calls_RemoveFile handleFile_uploads
                    simp del: run_calls.simps)
qed

text \<open>
  Claim C9. The configuration of an engine is fixed at construction: after any sequence of
  \<^verbatim>\<open>_handleFile\<close> and \<^verbatim>\<open>_removeFile\<close> calls the engine is the one constructed (same
  bucket, key function and SDK client), and every upload request issued along the way
  targets the bucket given at construction.
\<close>
theorem engine_configuration_fixed:
  assumes "CosStorage_constructor new_S3 opts = (Inr this, clients)"
  shows "fst (run_calls this calls) = this \<and>
         CosStorage.bucket (fst (run_calls this calls)) = StorageParams.bucket opts \<and>
         getObjectKey (fst (run_calls this calls)) = getObjectKey this \<and>
         cos (fst (run_calls this calls)) = cos this \<and>
         (\<forall>u. UploadRequest u \<in> set (snd (run_calls this calls)) \<longrightarrow>
              UploadParams.Bucket u = StorageParams.bucket opts)"
proof -
  have b: "CosStorage.bucket this = StorageParams.bucket opts"
    using constructor_returned[OF assms] by simp
  show ?thesis
    using b run_calls_buckets[of _ this calls] by (simp add: run_calls_this)
qed

theorem engine_configuration_fixed_witness:
  "CosStorage_constructor sample_new_S3 sample_params = (Inr sample_engine, [cos sample_engine]) \<and>
   run_calls sample_engine
     [HandleFile (Request 1) sample_file returning_callback sample_entropy sample_run,
      RemoveFile (Request 1) sample_stored None,
      HandleFile (Request 2) sample_file returning_callback sample_entropy sample_failed_run] =
     (sample_engine,
      [UploadRequest \<lparr>UploadParams.Bucket = ''uploads'', UploadParams.Key = JsUndefined,
                      Body = Readable [104, 105]\<rparr>,
       DeleteRequest \<lparr>DeleteParams.Bucket = ''uploads'', DeleteParams.Key = ''a.txt''\<rparr>,
       UploadRequest \<lparr>UploadParams.Bucket = ''uploads'', UploadParams.Key = JsUndefined,
                      Body = Readable [104, 105]\<rparr>])"
proof -
  have c: "CosStorage_constructor sample_new_S3 sample_params = (Inr sample_engine, [cos sample_engine])"
    by (simp add: CosStorage_constructor_def validateStorageParams_def not_string_def
        client_options_def sample_new_S3_def sample_params_def sample_engine_def Let_def)
  let ?calls = "[HandleFile (Request 1) sample_file returning_callback sample_entropy sample_run,
      RemoveFile (Request 1) sample_stored None,
      HandleFile (Request 2) sample_file returning_callback sample_entropy sample_failed_run]"
  have r: "snd (run_calls sample_engine ?calls) =
      [UploadRequest \<lparr>UploadParams.Bucket = ''uploads'', UploadParams.Key = JsUndefined,
                      Body = Readable [104, 105]\<rparr>,
       DeleteRequest \<lparr>DeleteParams.Bucket = ''uploads'', DeleteParams.Key = ''a.txt''\<rparr>,
       UploadRequest \<lparr>UploadParams.Bucket = ''uploads'', UploadParams.Key = JsUndefined,
                      Body = Readable [104, 105]\<rparr>]"
    by (simp add: run_calls_HandleFile run_calls_RemoveFile handleFile_uploads removeFile_def
        default_key_undefined sample_engine_def sample_file_def sample_stored_def
        del: run_calls.simps(2,3))
  from engine_configuration_fixed [OF c, of ?calls]
  have "fst (run_calls sample_engine ?calls) = sample_engine" by simp
  with c r show ?thesis by (simp add: prod_eq_iff)
qed

end
